theory Spec2Isabelle
  imports Main "HOL-Library.Word" "HOL-Library.Signed_Division"
begin

unbundle bit_operations_syntax

section \<open>Machine model for runtime\_esp32c3.go\<close>

text \<open>
  The ESP32-C3 is a 32-bit little-endian RISC-V core: \<open>uintptr\<close> and \<open>uint32\<close> are
  32-bit words, memory is byte addressed, and \<open>timeUnit\<close> is Go's \<open>int64\<close>, kept here
  as a 64-bit word that is read with \<open>sint\<close> and compared with the signed order.
\<close>

type_synonym u8 = "8 word"
type_synonym u32 = "32 word"
type_synonym u64 = "64 word"
type_synonym timeUnit = "64 word"

text \<open>The memory-mapped registers that the file touches, named as in the source.\<close>

datatype reg =
    TIMG0_WDTCONFIG0_REG
  | RTC_CNTL_RTC_WDTWPROTECT
  | RTC_CNTL_RTC_WDTCONFIG0
  | RTC_CNTL_RTC_SWD_WPROTECT
  | RTC_CNTL_RTC_SWD_CONF
  | SYSTEM_SYSCLK_CONF
  | SYSTEM_CPU_PER_CONF_REG
  | TIMG0_T0CONFIG_REG
  | TIMG0_T0LOADLO_REG
  | TIMG0_T0LOADHI_REG
  | TIMG0_T0LOAD_REG
  | TIMG0_T0UPDATE_REG
  | TIMG0_T0LO_REG
  | TIMG0_T0HI_REG

text \<open>
  Everything the program does that is visible outside the core, in program order:
  register writes and reads, 32-bit stores to memory, the call of the external
  \<open>run()\<close>, and the \<open>wfi\<close> instruction.
\<close>

datatype event =
    RegSet reg u32
  | RegGet reg
  | Store32 u32 u32
  | CallRun
  | Wfi

text \<open>
  The bit masks and field positions come from the generated package \<open>device/esp\<close>,
  which is not part of the file; they are parameters of the model.
\<close>

record esp_consts =
  RTC_CNTL_RTC_SWD_CONF_SWD_DISABLE :: u32
  SYSTEM_SYSCLK_CONF_SOC_CLK_SEL_Pos :: nat
  SYSTEM_CPU_PER_CONF_REG_CPU_WAIT_MODE_FORCE_ON :: u32
  SYSTEM_CPU_PER_CONF_REG_PLL_FREQ_SEL :: u32
  SYSTEM_CPU_PER_CONF_REG_CPUPERIOD_SEL_Pos :: nat
  TIMG_T0CONFIG_REG_T0_EN :: u32
  TIMG_T0CONFIG_REG_T0_INCREASE :: u32
  TIMG_T0CONFIG_REG_T0_DIVIDER_Pos :: nat

text \<open>
  The machine: byte-addressed memory, the register file (last value written; for
  \<open>T0LO\<close>/\<open>T0HI\<close> the latched snapshot), the free-running 64-bit timer counter, the
  environment's schedule \<open>future\<close> (by how much the counter advances before each of
  the coming register accesses), and the trace of events so far.
\<close>

record machine =
  mem :: "u32 \<Rightarrow> u8"
  regs :: "reg \<Rightarrow> u32"
  counter :: u64
  future :: "nat \<Rightarrow> u64"
  trace :: "event list"

definition log :: "event \<Rightarrow> machine \<Rightarrow> machine" where
  "log e s = s\<lparr>trace := trace s @ [e]\<rparr>"

text \<open>Time passes before a register access: the counter takes the next scheduled advance.\<close>

definition elapse :: "machine \<Rightarrow> machine" where
  "elapse s = s\<lparr>counter := counter s + future s 0, future := (\<lambda>n. future s (Suc n))\<rparr>"

text \<open>
  The hardware side of the timer, as the comments in \<open>ticks\<close> and \<open>main\<close> describe it:
  a write to \<open>T0UPDATE\<close> copies the counter into the \<open>T0LO\<close>/\<open>T0HI\<close> pair; a write to
  \<open>T0LOAD\<close> sets the counter from \<open>T0LOADLO\<close>/\<open>T0LOADHI\<close>. The written value is
  ignored in both cases.
\<close>

definition latch :: "machine \<Rightarrow> machine" where
  "latch s = s\<lparr>regs := (regs s)
     (TIMG0_T0LO_REG := ucast (counter s), TIMG0_T0HI_REG := ucast (drop_bit 32 (counter s)))\<rparr>"

definition reload :: "machine \<Rightarrow> machine" where
  "reload s = s\<lparr>counter :=
     ucast (regs s TIMG0_T0LOADLO_REG) OR push_bit 32 (ucast (regs s TIMG0_T0LOADHI_REG))\<rparr>"

text \<open>\<open>Register.Set(v)\<close> and \<open>Register.Get()\<close>.\<close>

definition reg_Set :: "reg \<Rightarrow> u32 \<Rightarrow> machine \<Rightarrow> machine" where
  "reg_Set r v s =
     (let s1 = log (RegSet r v) (elapse s) in
      if r = TIMG0_T0UPDATE_REG then latch s1
      else if r = TIMG0_T0LOAD_REG then reload s1
      else if r = TIMG0_T0LO_REG \<or> r = TIMG0_T0HI_REG then s1
      else s1\<lparr>regs := (regs s1)(r := v)\<rparr>)"

definition reg_Get :: "reg \<Rightarrow> machine \<Rightarrow> u32 \<times> machine" where
  "reg_Get r s = (let s1 = log (RegGet r) (elapse s) in (regs s1 r, s1))"

text \<open>\<open>*(*uint32)(ptr) = v\<close>: a little-endian store of four bytes; \<open>load32\<close> reads them back.\<close>

definition store32 :: "u32 \<Rightarrow> u32 \<Rightarrow> machine \<Rightarrow> machine" where
  "store32 p v s = log (Store32 p v) (s\<lparr>mem := (mem s)
     (p := ucast v, p + 1 := ucast (drop_bit 8 v),
      p + 2 := ucast (drop_bit 16 v), p + 3 := ucast (drop_bit 24 v))\<rparr>)"

definition load32 :: "(u32 \<Rightarrow> u8) \<Rightarrow> u32 \<Rightarrow> u32" where
  "load32 m p = ucast (m p) OR push_bit 8 (ucast (m (p + 1)))
     OR push_bit 16 (ucast (m (p + 2))) OR push_bit 24 (ucast (m (p + 3)))"

section \<open>The boot entry \<open>main\<close>\<close>

text \<open>Lines 36-45: the three watchdogs.\<close>

definition disable_watchdogs :: "esp_consts \<Rightarrow> machine \<Rightarrow> machine" where
  "disable_watchdogs K s =
     (let s = reg_Set TIMG0_WDTCONFIG0_REG 0 s;
          s = reg_Set RTC_CNTL_RTC_WDTWPROTECT 0x50D83AA1 s;
          s = reg_Set RTC_CNTL_RTC_WDTCONFIG0 0 s;
          s = reg_Set RTC_CNTL_RTC_SWD_WPROTECT 0x8F1D312A s;
          s = reg_Set RTC_CNTL_RTC_SWD_CONF (RTC_CNTL_RTC_SWD_CONF_SWD_DISABLE K) s
      in s)"

text \<open>Lines 47-56: XTAL to PLL, then 80MHz to 160MHz.\<close>

definition set_cpu_frequency :: "esp_consts \<Rightarrow> machine \<Rightarrow> machine" where
  "set_cpu_frequency K s =
     (let s = reg_Set SYSTEM_SYSCLK_CONF (push_bit (SYSTEM_SYSCLK_CONF_SOC_CLK_SEL_Pos K) 1) s;
          s = reg_Set SYSTEM_CPU_PER_CONF_REG
                (SYSTEM_CPU_PER_CONF_REG_CPU_WAIT_MODE_FORCE_ON K
                 OR SYSTEM_CPU_PER_CONF_REG_PLL_FREQ_SEL K
                 OR push_bit (SYSTEM_CPU_PER_CONF_REG_CPUPERIOD_SEL_Pos K) 1) s
      in s)"

text \<open>
  Lines 60-64: the loop over \<open>.bss\<close>. It runs until \<open>ptr\<close> is equal to \<open>&_ebss\<close>, with
  32-bit pointer arithmetic, so it need not end: \<open>None\<close> is the loop that never ends.
\<close>

partial_function (option) bss_loop :: "u32 \<Rightarrow> u32 \<Rightarrow> machine \<Rightarrow> machine option" where
  "bss_loop ptr ebss s =
     (if ptr \<noteq> ebss then bss_loop (ptr + 4) ebss (store32 ptr 0 s) else Some s)"

definition init_bss :: "u32 \<Rightarrow> u32 \<Rightarrow> machine \<Rightarrow> machine option" where
  "init_bss sbss ebss s = bss_loop sbss ebss s"

text \<open>Lines 66-76: timer 0 of timer group 0.\<close>

definition configure_timer :: "esp_consts \<Rightarrow> machine \<Rightarrow> machine" where
  "configure_timer K s =
     (let s = reg_Set TIMG0_T0CONFIG_REG
                (TIMG_T0CONFIG_REG_T0_EN K OR TIMG_T0CONFIG_REG_T0_INCREASE K
                 OR push_bit (TIMG_T0CONFIG_REG_T0_DIVIDER_Pos K) 2) s;
          s = reg_Set TIMG0_T0LOADLO_REG 0 s;
          s = reg_Set TIMG0_T0LOADHI_REG 0 s;
          s = reg_Set TIMG0_T0LOAD_REG 0 s
      in s)"

text \<open>\<open>main\<close> up to and including the call instruction of \<open>run()\<close> (lines 36-79).\<close>

definition main_to_handoff :: "esp_consts \<Rightarrow> u32 \<Rightarrow> u32 \<Rightarrow> machine \<Rightarrow> machine option" where
  "main_to_handoff K sbss ebss s =
     (case init_bss sbss ebss (set_cpu_frequency K (disable_watchdogs K s)) of
        None \<Rightarrow> None
      | Some s1 \<Rightarrow> Some (log CallRun (configure_timer K s1)))"

text \<open>
  \<open>abort\<close> is \<open>for { wfi }\<close>, a loop with no exit. It is observed for a number of
  iterations: \<open>Inl s\<close> is "still inside the loop, in state s"; \<open>Inr s\<close> would be "the
  loop was left in state s".
\<close>

primrec abort :: "nat \<Rightarrow> machine \<Rightarrow> machine + machine" where
  "abort 0 s = Inl s"
| "abort (Suc n) s = abort n (log Wfi s)"

text \<open>
  The whole of \<open>main\<close>. The external \<open>run\<close> is a parameter; \<open>None\<close> is a \<open>run\<close> (or a
  \<open>.bss\<close> loop) that never comes back. After a return of \<open>run\<close> the result is that of
  \<open>abort\<close>, observed for \<open>n\<close> iterations.
\<close>

definition main :: "esp_consts \<Rightarrow> u32 \<Rightarrow> u32 \<Rightarrow> (machine \<Rightarrow> machine option) \<Rightarrow> nat \<Rightarrow>
    machine \<Rightarrow> (machine + machine) option" where
  "main K sbss ebss run n s =
     (case main_to_handoff K sbss ebss s of
        None \<Rightarrow> None
      | Some s1 \<Rightarrow> (case run s1 of None \<Rightarrow> None | Some s2 \<Rightarrow> Some (abort n s2)))"

section \<open>Timekeeping\<close>

definition ticks :: "machine \<Rightarrow> timeUnit \<times> machine" where
  "ticks s =
     (let s = reg_Set TIMG0_T0UPDATE_REG 0 s;
          (lo, s) = reg_Get TIMG0_T0LO_REG s;
          (hi, s) = reg_Get TIMG0_T0HI_REG s
      in (ucast lo OR push_bit 32 (ucast hi), s))"

text \<open>Go's \<open>/\<close> on \<open>int64\<close> truncates towards zero: \<open>sdiv\<close> on the signed value.\<close>

definition nanosecondsToTicks :: "64 word \<Rightarrow> timeUnit" where
  "nanosecondsToTicks ns = word_of_int (sint ns sdiv 25)"

definition ticksToNanoseconds :: "timeUnit \<Rightarrow> 64 word" where
  "ticksToNanoseconds t = t * 25"

text \<open>
  \<open>sleepTicks\<close>: the deadline is computed once, with wrapping \<open>int64\<close> addition; the loop
  polls \<open>ticks()\<close> and compares with the signed order. \<open>None\<close> is a sleep that never ends.
\<close>

partial_function (option) sleep_loop :: "timeUnit \<Rightarrow> machine \<Rightarrow> machine option" where
  "sleep_loop sleepUntil s =
     (case ticks s of (t, s') \<Rightarrow> if t <s sleepUntil then sleep_loop sleepUntil s' else Some s')"

definition sleepTicks :: "timeUnit \<Rightarrow> machine \<Rightarrow> machine option" where
  "sleepTicks d s = (case ticks s of (t0, s1) \<Rightarrow> sleep_loop (t0 + d) s1)"

section \<open>Notions used in the statements\<close>

text \<open>Event \<open>a\<close> occurs in the trace with event \<open>b\<close> as its direct successor.\<close>

definition immediately_before :: "event \<Rightarrow> event \<Rightarrow> event list \<Rightarrow> bool" where
  "immediately_before a b tr = ((a, b) \<in> set (zip tr (tl tr)))"

text \<open>A write to one of the two clock registers of \<open>SYSTEM\<close>.\<close>

definition clock_write :: "event \<Rightarrow> bool" where
  "clock_write e = (case e of RegSet r v \<Rightarrow> r = SYSTEM_SYSCLK_CONF \<or> r = SYSTEM_CPU_PER_CONF_REG
                    | _ \<Rightarrow> False)"

text \<open>
  Sample values for the constants of \<open>device/esp\<close>, used where a statement is
  evaluated on a concrete machine; the general theorems hold for any values.
\<close>

definition esp32c3 :: esp_consts where
  "esp32c3 = \<lparr>RTC_CNTL_RTC_SWD_CONF_SWD_DISABLE = 0x40000000,
     SYSTEM_SYSCLK_CONF_SOC_CLK_SEL_Pos = 10,
     SYSTEM_CPU_PER_CONF_REG_CPU_WAIT_MODE_FORCE_ON = 0x8,
     SYSTEM_CPU_PER_CONF_REG_PLL_FREQ_SEL = 0x4,
     SYSTEM_CPU_PER_CONF_REG_CPUPERIOD_SEL_Pos = 0,
     TIMG_T0CONFIG_REG_T0_EN = 0x80000000,
     TIMG_T0CONFIG_REG_T0_INCREASE = 0x40000000,
     TIMG_T0CONFIG_REG_T0_DIVIDER_Pos = 13\<rparr>"

text \<open>A runtime that writes one word and comes back, for evaluating the halt path.\<close>

definition returning_run :: "machine \<Rightarrow> machine option" where
  "returning_run s = Some (store32 0x3FC80000 7 s)"

section \<open>States used in the proofs\<close>

text \<open>
  The state after \<open>n\<close> iterations of the \<open>.bss\<close> loop that started at \<open>p\<close>: the
  \<open>4 * n\<close> bytes from \<open>p\<close> are zero, and one store per word has been traced.
\<close>

definition zeroed :: "u32 \<Rightarrow> nat \<Rightarrow> machine \<Rightarrow> machine" where
  "zeroed p n s = s\<lparr>mem := (\<lambda>a. if unat (a - p) < 4 * n then 0 else mem s a),
       trace := trace s @ map (\<lambda>k. Store32 (p + 4 * of_nat k) 0) [0..<n]\<rparr>"

text \<open>A machine as the boot ROM may leave it: memory full of a non-zero pattern.\<close>

definition garbage :: machine where
  "garbage = \<lparr>mem = (\<lambda>a. 0xA5), regs = (\<lambda>r. 0), counter = 0, future = (\<lambda>n. 1), trace = []\<rparr>"

section \<open>Tick conversion\<close>

lemma sdiv_nonneg_25: "0 \<le> (k::int) \<Longrightarrow> k sdiv 25 = k div 25"
  by (simp add: signed_divide_int_def sgn_if)

lemma sint_int64_bounds: "- (2 ^ 63) \<le> sint (w :: 64 word) \<and> sint w < 2 ^ 63"
  using sint_ge [of w] sint_lt [of w] by simp

lemma sint_word_of_int_64:
  "- (2 ^ 63) \<le> k \<Longrightarrow> k < 2 ^ 63 \<Longrightarrow> sint (word_of_int k :: 64 word) = k"
  by (simp add: sint_sbintrunc' signed_take_bit_int_eq_self)

text \<open>
  Claim C4. For every non-negative duration \<open>d\<close> (an \<open>int64\<close> number of nanoseconds),
  \<open>ticksToNanoseconds (nanosecondsToTicks d)\<close> is \<open>(d / 25) * 25\<close>, that is \<open>d\<close> rounded
  down to a multiple of the 25ns tick; the multiplication does not overflow.
\<close>

theorem ticks_roundtrip_floor:
  assumes "0 \<le> sint d"
  shows "sint (ticksToNanoseconds (nanosecondsToTicks d)) = (sint d div 25) * 25
       \<and> sint (ticksToNanoseconds (nanosecondsToTicks d)) = sint d - sint d mod 25"
proof -
  let ?k = "sint d"
  have b: "?k < 2 ^ 63" using sint_int64_bounds [of d] by simp
  have lo: "0 \<le> (?k div 25) * 25" using assms by simp
  have hi: "(?k div 25) * 25 \<le> ?k" using assms by presburger
  have w: "ticksToNanoseconds (nanosecondsToTicks d) = word_of_int ((?k div 25) * 25)"
    using assms by (simp add: ticksToNanoseconds_def nanosecondsToTicks_def sdiv_nonneg_25)
  have r: "sint (ticksToNanoseconds (nanosecondsToTicks d)) = (?k div 25) * 25"
    unfolding w using lo hi b by (intro sint_word_of_int_64) linarith+
  then show ?thesis by (simp add: minus_mod_eq_div_mult)
qed

theorem ticks_roundtrip_floor_witness:
  "0 \<le> sint (1000000007 :: 64 word)
   \<and> sint (ticksToNanoseconds (nanosecondsToTicks 1000000007)) = 1000000000"
  using ticks_roundtrip_floor [of 1000000007] by simp


section \<open>Zero-initialisation of \<open>.bss\<close>\<close>

lemma unat_sub4: "unat (d - 4 :: 32 word) = (if 4 \<le> unat d then unat d - 4 else unat d + 2 ^ 32 - 4)"
  by (simp add: unat_sub_if') 

lemma small_word: "unat d < 4 \<longleftrightarrow> (d = 0 \<or> d = 1 \<or> d = 2 \<or> d = (3 :: 32 word))"
  by unat_arith

lemma in_store_iff: "(a = p \<or> a = p + 1 \<or> a = p + 2 \<or> a = p + 3) \<longleftrightarrow> unat (a - p) < 4" for a p :: "32 word"
proof -
  have "a = p + k \<longleftrightarrow> a - p = k" for k by auto
  from this [of 0] this [of 1] this [of 2] this [of 3] show ?thesis
    by (simp add: small_word)
qed

lemma region_iff: "start \<le> e \<Longrightarrow> (unat (a - start) < unat e - unat start) \<longleftrightarrow> (start \<le> a \<and> a < e)" for a :: "32 word"
  by unat_arith

lemma unat_of_nat32: "n < 2 ^ 32 \<Longrightarrow> unat (of_nat n :: 32 word) = n"
  by (simp add: unat_of_nat take_bit_nat_eq_self)

lemma of_nat_ne0: "0 < n \<Longrightarrow> n < 2 ^ 32 \<Longrightarrow> (of_nat n :: 32 word) \<noteq> 0"
  using unat_of_nat32 [of n] by auto

lemma store32_zero_mem: "mem (store32 p 0 s) a = (if unat (a - p) < 4 then 0 else mem s a)"
  using in_store_iff [of a p] by (auto simp: store32_def log_def)

lemma store32_fields: "trace (store32 p v s) = trace s @ [Store32 p v]"
  "regs (store32 p v s) = regs s" "counter (store32 p v s) = counter s" "future (store32 p v s) = future s"
  by (simp_all add: store32_def log_def)

lemma zeroed_step: 
  assumes "4 * Suc n < 2 ^ 32"
  shows "zeroed (p + 4) n (store32 p 0 s) = zeroed p (Suc n) s"
proof -
  have m: "(if unat (a - (p + 4)) < 4 * n then 0 else mem (store32 p 0 s) a)
         = (if unat (a - p) < 4 * Suc n then 0 else mem s a)" for a
  proof -
    have k: "unat (a - (p + 4)) =
        (if 4 \<le> unat (a - p) then unat (a - p) - 4 else unat (a - p) + 2 ^ 32 - 4)"
      using unat_sub4 [of "a - p"] by (simp add: diff_diff_eq)
    show ?thesis using assms by (auto simp: store32_zero_mem k)
  qed
  have t: "[Store32 p 0] @ map (\<lambda>k. Store32 (p + 4 + 4 * of_nat k) 0) [0..<n]
         = map (\<lambda>k. Store32 (p + 4 * of_nat k) 0) [0..<Suc n]"
  proof -
    have u: "[0..<Suc n] = 0 # map Suc [0..<n]"
      by (simp only: map_Suc_upt upt_conv_Cons [of 0 "Suc n"] zero_less_Suc)
    show ?thesis unfolding u by (simp add: algebra_simps)
  qed
  show ?thesis unfolding zeroed_def
    apply (rule machine.equality)
    using t by (simp_all add: store32_fields m)
qed

lemma bss_loop_words:
  "4 * n < 2 ^ 32 \<Longrightarrow> bss_loop p (p + 4 * of_nat n) s = Some (zeroed p n s)"
proof (induction n arbitrary: p s)
  case 0
  show ?case by (subst bss_loop.simps) (simp add: zeroed_def)
next
  case (Suc n)
  have ne: "p \<noteq> p + 4 * of_nat (Suc n)"
    using of_nat_ne0 [of "4 * Suc n"] Suc.prems by simp
  have e: "p + 4 * of_nat (Suc n) = (p + 4) + 4 * of_nat n" by (simp add: algebra_simps)
  have "bss_loop p (p + 4 * of_nat (Suc n)) s = bss_loop (p + 4) (p + 4 * of_nat (Suc n)) (store32 p 0 s)"
    using ne by (subst bss_loop.simps) simp
  also have "\<dots> = Some (zeroed (p + 4) n (store32 p 0 s))"
    unfolding e using Suc.prems by (intro Suc.IH) simp
  finally show ?case using Suc.prems by (simp only: zeroed_step)
qed

lemma unat_add_small:
  assumes "4 dvd unat a" "k < 4"
  shows "unat (a + of_nat k :: 32 word) = unat a + k"
proof -
  have "unat a < 4294967296" using unsigned_less [of a] by simp
  then have "unat a + k < 4294967296" using assms by presburger
  then have "unat a + k < 2 ^ 32" by simp
  moreover have "unat (of_nat k :: 32 word) = k" using assms by (simp add: unat_of_nat32)
  ultimately show ?thesis by (simp add: unat_add_lem [THEN iffD1])
qed

lemma aligned_byte_in_region:
  assumes "4 dvd unat a" "4 dvd unat lo" "4 dvd unat hi" "k < 4"
  shows "(lo \<le> a + of_nat k \<and> a + of_nat k < hi) \<longleftrightarrow> (lo \<le> a \<and> a < (hi :: 32 word))"
proof -
  have "(unat lo \<le> unat a + k \<and> unat a + k < unat hi) \<longleftrightarrow> (unat lo \<le> unat a \<and> unat a < unat hi)"
    using assms by presburger
  then show ?thesis
    by (simp add: word_le_nat_alt word_less_nat_alt unat_add_small [OF assms(1,4)])
qed

lemma bss_loop_region:
  assumes "sbss \<le> ebss" "4 dvd (unat ebss - unat sbss)"
  shows "bss_loop sbss ebss s = Some (zeroed sbss ((unat ebss - unat sbss) div 4) s)"
proof -
  let ?n = "(unat ebss - unat sbss) div 4"
  have le: "unat sbss \<le> unat ebss" using assms(1) by (simp add: word_le_nat_alt)
  have n4: "4 * ?n = unat ebss - unat sbss" using assms(2) by simp
  have "unat ebss < 2 ^ 32" using unsigned_less [of ebss] by simp
  then have b: "4 * ?n < 2 ^ 32" using n4 by linarith
  have "(of_nat (4 * ?n) :: 32 word) = of_nat (unat ebss) - of_nat (unat sbss)"
    unfolding n4 using le by (simp add: of_nat_diff)
  then have e: "ebss = sbss + 4 * of_nat ?n" by simp
  show ?thesis using bss_loop_words [OF b, of sbss s] e by simp
qed

lemma mem_zeroed_region:
  assumes "sbss \<le> ebss" "4 dvd (unat ebss - unat sbss)"
  shows "mem (zeroed sbss ((unat ebss - unat sbss) div 4) s) a
       = (if sbss \<le> a \<and> a < ebss then 0 else mem s a)"
  using assms region_iff [OF assms(1), of a] by (simp add: zeroed_def)

lemma aligned_word_in_region:
  assumes "4 dvd unat a" "4 dvd unat lo" "4 dvd unat hi"
  shows "(lo \<le> a + 1 \<and> a + 1 < hi) \<longleftrightarrow> (lo \<le> a \<and> a < (hi :: 32 word))"
    and "(lo \<le> a + 2 \<and> a + 2 < hi) \<longleftrightarrow> (lo \<le> a \<and> a < hi)"
    and "(lo \<le> a + 3 \<and> a + 3 < hi) \<longleftrightarrow> (lo \<le> a \<and> a < hi)"
  using aligned_byte_in_region [OF assms, of 1] aligned_byte_in_region [OF assms, of 2]
    aligned_byte_in_region [OF assms, of 3] by simp_all

text \<open>
  Claim C2. For word-aligned \<open>sbss \<le> ebss\<close> the loop over \<open>.bss\<close> returns; afterwards
  every byte, and so every aligned 4-byte word, in \<open>[sbss, ebss)\<close> reads as zero, and
  every byte, and so every aligned word, outside the region holds the value it had before.
\<close>

theorem init_bss_zeroes_exactly_region:
  assumes "sbss \<le> ebss" "4 dvd unat sbss" "4 dvd unat ebss"
  shows "\<exists>s'. init_bss sbss ebss s = Some s'
     \<and> (\<forall>a. sbss \<le> a \<and> a < ebss \<longrightarrow> mem s' a = 0)
     \<and> (\<forall>a. 4 dvd unat a \<and> sbss \<le> a \<and> a < ebss \<longrightarrow> load32 (mem s') a = 0)
     \<and> (\<forall>a. \<not> (sbss \<le> a \<and> a < ebss) \<longrightarrow> mem s' a = mem s a)
     \<and> (\<forall>a. 4 dvd unat a \<and> \<not> (sbss \<le> a \<and> a < ebss)
            \<longrightarrow> load32 (mem s') a = load32 (mem s) a)"
proof -
  let ?s' = "zeroed sbss ((unat ebss - unat sbss) div 4) s"
  have le: "unat sbss \<le> unat ebss" using assms(1) by (simp add: word_le_nat_alt)
  have d: "4 dvd (unat ebss - unat sbss)" using assms(2,3) le by (simp add: dvd_diff_nat)
  have r: "init_bss sbss ebss s = Some ?s'"
    unfolding init_bss_def by (rule bss_loop_region [OF assms(1) d])
  have m: "mem ?s' a = (if sbss \<le> a \<and> a < ebss then 0 else mem s a)" for a
    by (rule mem_zeroed_region [OF assms(1) d])
  have w: "load32 (mem ?s') a = (if sbss \<le> a \<and> a < ebss then 0 else load32 (mem s) a)"
    if "4 dvd unat a" for a
    using aligned_word_in_region [OF that assms(2,3)] by (simp add: load32_def m)
  show ?thesis using r m w by auto
qed

theorem init_bss_zeroes_exactly_region_witness:
  "(0x3FC80000 :: u32) \<le> 0x3FC80010 \<and> 4 dvd unat (0x3FC80000 :: u32)
   \<and> 4 dvd unat (0x3FC80010 :: u32)
   \<and> (\<exists>s'. init_bss 0x3FC80000 0x3FC80010 garbage = Some s'
        \<and> load32 (mem s') 0x3FC8000C = 0 \<and> mem s' 0x3FC80010 = 0xA5)"
proof -
  have h: "(0x3FC80000 :: u32) \<le> 0x3FC80010" "4 dvd unat (0x3FC80000 :: u32)"
    "4 dvd unat (0x3FC80010 :: u32)" by simp_all
  from init_bss_zeroes_exactly_region [OF h, of garbage] obtain s' where
    r: "init_bss 0x3FC80000 0x3FC80010 garbage = Some s'"
    and z: "\<forall>a. 4 dvd unat a \<and> 0x3FC80000 \<le> a \<and> a < 0x3FC80010 \<longrightarrow> load32 (mem s') a = 0"
    and o: "\<forall>a. \<not> (0x3FC80000 \<le> a \<and> a < 0x3FC80010) \<longrightarrow> mem s' a = mem garbage a"
    by blast
  have "load32 (mem s') 0x3FC8000C = 0" using z [rule_format, of "0x3FC8000C"] by simp
  moreover have "mem s' 0x3FC80010 = 0xA5" using o [rule_format, of "0x3FC80010"]
    by (simp add: garbage_def)
  ultimately show ?thesis using h r by simp
qed

text \<open>
  Claim C3. For every region whose length \<open>ebss - sbss\<close> is a non-negative multiple of
  4 the loop terminates, a second run terminates too and leaves memory as the first run
  left it, and on the empty region the loop returns the state it was given: no
  iteration, no store.
\<close>

theorem init_bss_terminates_idempotent:
  assumes "sbss \<le> ebss" "4 dvd (unat ebss - unat sbss)"
  shows "\<exists>s1. init_bss sbss ebss s = Some s1
     \<and> (\<exists>s2. init_bss sbss ebss s1 = Some s2 \<and> mem s2 = mem s1)
     \<and> init_bss sbss sbss s = Some s"
proof -
  let ?n = "(unat ebss - unat sbss) div 4"
  have r: "init_bss sbss ebss t = Some (zeroed sbss ?n t)" for t
    unfolding init_bss_def by (rule bss_loop_region [OF assms])
  have m: "mem (zeroed sbss ?n t) a = (if sbss \<le> a \<and> a < ebss then 0 else mem t a)" for t a
    by (rule mem_zeroed_region [OF assms])
  have i: "mem (zeroed sbss ?n (zeroed sbss ?n s)) = mem (zeroed sbss ?n s)"
    by (rule ext) (simp add: m)
  have e: "init_bss sbss sbss s = Some s"
    unfolding init_bss_def by (subst bss_loop.simps) simp
  show ?thesis using r i e by simp
qed

theorem init_bss_terminates_idempotent_witness:
  "(0x3FC80000 :: u32) \<le> 0x3FC80010
   \<and> 4 dvd (unat (0x3FC80010 :: u32) - unat (0x3FC80000 :: u32))
   \<and> (\<exists>s1. init_bss 0x3FC80000 0x3FC80010 garbage = Some s1
        \<and> (\<exists>s2. init_bss 0x3FC80000 0x3FC80010 s1 = Some s2 \<and> mem s2 = mem s1))"
proof -
  have h: "(0x3FC80000 :: u32) \<le> 0x3FC80010"
    "4 dvd (unat (0x3FC80010 :: u32) - unat (0x3FC80000 :: u32))" by simp_all
  show ?thesis using h init_bss_terminates_idempotent [OF h, of garbage] by blast
qed


section \<open>The trace of \<open>main\<close>\<close>

lemma trace_reg_Set: "trace (reg_Set r v s) = trace s @ [RegSet r v]"
  by (simp add: reg_Set_def Let_def log_def elapse_def latch_def reload_def)

lemma mem_reg_Set: "mem (reg_Set r v s) = mem s"
  by (simp add: reg_Set_def Let_def log_def elapse_def latch_def reload_def)

lemma trace_disable_watchdogs:
  "trace (disable_watchdogs K s) = trace s @
     [RegSet TIMG0_WDTCONFIG0_REG 0,
      RegSet RTC_CNTL_RTC_WDTWPROTECT 0x50D83AA1,
      RegSet RTC_CNTL_RTC_WDTCONFIG0 0,
      RegSet RTC_CNTL_RTC_SWD_WPROTECT 0x8F1D312A,
      RegSet RTC_CNTL_RTC_SWD_CONF (RTC_CNTL_RTC_SWD_CONF_SWD_DISABLE K)]"
  by (simp add: disable_watchdogs_def Let_def trace_reg_Set)

lemma trace_set_cpu_frequency:
  "trace (set_cpu_frequency K s) = trace s @
     [RegSet SYSTEM_SYSCLK_CONF (push_bit (SYSTEM_SYSCLK_CONF_SOC_CLK_SEL_Pos K) 1),
      RegSet SYSTEM_CPU_PER_CONF_REG
        (SYSTEM_CPU_PER_CONF_REG_CPU_WAIT_MODE_FORCE_ON K
         OR SYSTEM_CPU_PER_CONF_REG_PLL_FREQ_SEL K
         OR push_bit (SYSTEM_CPU_PER_CONF_REG_CPUPERIOD_SEL_Pos K) 1)]"
  by (simp add: set_cpu_frequency_def Let_def trace_reg_Set)

lemma trace_configure_timer:
  "trace (configure_timer K s) = trace s @
     [RegSet TIMG0_T0CONFIG_REG
        (TIMG_T0CONFIG_REG_T0_EN K OR TIMG_T0CONFIG_REG_T0_INCREASE K
         OR push_bit (TIMG_T0CONFIG_REG_T0_DIVIDER_Pos K) 2),
      RegSet TIMG0_T0LOADLO_REG 0,
      RegSet TIMG0_T0LOADHI_REG 0,
      RegSet TIMG0_T0LOAD_REG 0]"
  by (simp add: configure_timer_def Let_def trace_reg_Set)

lemma mem_stages: "mem (disable_watchdogs K s) = mem s" "mem (set_cpu_frequency K s) = mem s"
  "mem (configure_timer K s) = mem s"
  by (simp_all add: disable_watchdogs_def set_cpu_frequency_def configure_timer_def Let_def mem_reg_Set)

text \<open>Whenever the loop returns, it has only added stores of zero to the trace.\<close>

lemma bss_loop_trace:
  assumes "bss_loop p e s = Some s'"
  shows "\<exists>zs. trace s' = trace s @ zs \<and> (\<forall>z \<in> set zs. \<exists>a. z = Store32 a 0)"
proof (rule bss_loop.raw_induct [where P = "\<lambda>p e s s'.
    \<exists>zs. trace s' = trace s @ zs \<and> (\<forall>z \<in> set zs. \<exists>a. z = Store32 a 0)", OF _ assms])
  fix f p e s s'
  assume IH: "\<And>p e s s'. f p e s = Some s' \<Longrightarrow>
      \<exists>zs. trace s' = trace s @ zs \<and> (\<forall>z \<in> set zs. \<exists>a. z = Store32 a 0)"
    and body: "(if p \<noteq> e then f (p + 4) e (store32 p 0 s) else Some s) = Some s'"
  show "\<exists>zs. trace s' = trace s @ zs \<and> (\<forall>z \<in> set zs. \<exists>a. z = Store32 a 0)"
  proof (cases "p = e")
    case True
    with body show ?thesis by simp
  next
    case False
    with body have "f (p + 4) e (store32 p 0 s) = Some s'" by simp
    from IH [OF this] obtain zs where
      "trace s' = trace (store32 p 0 s) @ zs" "\<forall>z \<in> set zs. \<exists>a. z = Store32 a 0" by blast
    then have "trace s' = trace s @ (Store32 p 0 # zs)
        \<and> (\<forall>z \<in> set (Store32 p 0 # zs). \<exists>a. z = Store32 a 0)"
      by (simp add: store32_fields)
    then show ?thesis by blast
  qed
qed

lemma main_to_handoff_trace:
  assumes "main_to_handoff K sbss ebss s = Some s'"
  shows "\<exists>zs. (\<forall>z \<in> set zs. \<exists>a. z = Store32 a 0) \<and> trace s' = trace s @
     [RegSet TIMG0_WDTCONFIG0_REG 0,
      RegSet RTC_CNTL_RTC_WDTWPROTECT 0x50D83AA1,
      RegSet RTC_CNTL_RTC_WDTCONFIG0 0,
      RegSet RTC_CNTL_RTC_SWD_WPROTECT 0x8F1D312A,
      RegSet RTC_CNTL_RTC_SWD_CONF (RTC_CNTL_RTC_SWD_CONF_SWD_DISABLE K)] @
     [RegSet SYSTEM_SYSCLK_CONF (push_bit (SYSTEM_SYSCLK_CONF_SOC_CLK_SEL_Pos K) 1),
      RegSet SYSTEM_CPU_PER_CONF_REG
        (SYSTEM_CPU_PER_CONF_REG_CPU_WAIT_MODE_FORCE_ON K
         OR SYSTEM_CPU_PER_CONF_REG_PLL_FREQ_SEL K
         OR push_bit (SYSTEM_CPU_PER_CONF_REG_CPUPERIOD_SEL_Pos K) 1)] @
     zs @
     [RegSet TIMG0_T0CONFIG_REG
        (TIMG_T0CONFIG_REG_T0_EN K OR TIMG_T0CONFIG_REG_T0_INCREASE K
         OR push_bit (TIMG_T0CONFIG_REG_T0_DIVIDER_Pos K) 2),
      RegSet TIMG0_T0LOADLO_REG 0,
      RegSet TIMG0_T0LOADHI_REG 0,
      RegSet TIMG0_T0LOAD_REG 0] @
     [CallRun]"
proof -
  from assms obtain s1 where
    b: "bss_loop sbss ebss (set_cpu_frequency K (disable_watchdogs K s)) = Some s1"
    and s': "s' = log CallRun (configure_timer K s1)"
    by (auto simp: main_to_handoff_def init_bss_def split: option.splits)
  from bss_loop_trace [OF b] obtain zs where
    z: "trace s1 = trace (set_cpu_frequency K (disable_watchdogs K s)) @ zs"
    and a: "\<forall>z \<in> set zs. \<exists>a. z = Store32 a 0" by blast
  have "trace s' = trace (configure_timer K s1) @ [CallRun]" by (simp add: s' log_def)
  then show ?thesis using a z
    by (simp add: trace_configure_timer trace_set_cpu_frequency trace_disable_watchdogs)
qed

lemma main_to_handoff_region:
  assumes "sbss \<le> ebss" "4 dvd (unat ebss - unat sbss)"
  shows "main_to_handoff K sbss ebss s = Some (log CallRun (configure_timer K
     (zeroed sbss ((unat ebss - unat sbss) div 4) (set_cpu_frequency K (disable_watchdogs K s)))))"
  by (simp add: main_to_handoff_def init_bss_def bss_loop_region [OF assms])

lemma zip_tl_Cons: "ys \<noteq> [] \<Longrightarrow> zip (x # ys) ys = (x, hd ys) # zip ys (tl ys)"
  by (cases ys) auto

lemma immediately_before_mid: "immediately_before a b (xs @ a # b # ys)"
proof (induction xs)
  case Nil
  show ?case by (simp add: immediately_before_def)
next
  case (Cons x xs)
  then show ?case by (simp add: immediately_before_def zip_tl_Cons)
qed

lemma abort_trace: "abort n s = Inl (s\<lparr>trace := trace s @ replicate n Wfi\<rparr>)"
proof (induction n arbitrary: s)
  case 0
  show ?case by simp
next
  case (Suc n)
  show ?case by (simp add: Suc.IH log_def replicate_append_same)
qed

text \<open>
  Claim C1, amended. Whenever \<open>main\<close> reaches the handoff, its trace has the write of
  \<open>0x50D83AA1\<close> to \<open>RTC_WDTWPROTECT\<close> directly before the write of 0 to
  \<open>RTC_WDTCONFIG0\<close>, and the write of \<open>0x8F1D312A\<close> to \<open>RTC_SWD_WPROTECT\<close> directly
  before the write of \<open>SWD_DISABLE\<close> to \<open>RTC_SWD_CONF\<close>; the timer-group watchdog is
  disabled by the first write of \<open>main\<close>, a write of 0 to \<open>TIMG0.WDTCONFIG0\<close>, with no
  unlock write.
\<close>

theorem rtc_and_super_watchdog_unlocked_before_disable:
  assumes "main_to_handoff K sbss ebss s = Some s'"
  shows "immediately_before (RegSet RTC_CNTL_RTC_WDTWPROTECT 0x50D83AA1)
           (RegSet RTC_CNTL_RTC_WDTCONFIG0 0) (trace s')
       \<and> immediately_before (RegSet RTC_CNTL_RTC_SWD_WPROTECT 0x8F1D312A)
           (RegSet RTC_CNTL_RTC_SWD_CONF (RTC_CNTL_RTC_SWD_CONF_SWD_DISABLE K)) (trace s')
       \<and> trace s' ! length (trace s) = RegSet TIMG0_WDTCONFIG0_REG 0"
proof -
  from main_to_handoff_trace [OF assms] obtain zs rest where
    t: "trace s' = trace s @
     [RegSet TIMG0_WDTCONFIG0_REG 0,
      RegSet RTC_CNTL_RTC_WDTWPROTECT 0x50D83AA1,
      RegSet RTC_CNTL_RTC_WDTCONFIG0 0,
      RegSet RTC_CNTL_RTC_SWD_WPROTECT 0x8F1D312A,
      RegSet RTC_CNTL_RTC_SWD_CONF (RTC_CNTL_RTC_SWD_CONF_SWD_DISABLE K)] @ rest"
    by blast
  have 1: "trace s' = (trace s @ [RegSet TIMG0_WDTCONFIG0_REG 0]) @
      RegSet RTC_CNTL_RTC_WDTWPROTECT 0x50D83AA1 # RegSet RTC_CNTL_RTC_WDTCONFIG0 0 #
      ([RegSet RTC_CNTL_RTC_SWD_WPROTECT 0x8F1D312A,
        RegSet RTC_CNTL_RTC_SWD_CONF (RTC_CNTL_RTC_SWD_CONF_SWD_DISABLE K)] @ rest)"
    by (simp add: t)
  have 2: "trace s' = (trace s @ [RegSet TIMG0_WDTCONFIG0_REG 0,
        RegSet RTC_CNTL_RTC_WDTWPROTECT 0x50D83AA1, RegSet RTC_CNTL_RTC_WDTCONFIG0 0]) @
      RegSet RTC_CNTL_RTC_SWD_WPROTECT 0x8F1D312A #
      RegSet RTC_CNTL_RTC_SWD_CONF (RTC_CNTL_RTC_SWD_CONF_SWD_DISABLE K) # rest"
    by (simp add: t)
  have 3: "trace s' ! length (trace s) = RegSet TIMG0_WDTCONFIG0_REG 0"
    by (simp add: t)
  have a: "immediately_before (RegSet RTC_CNTL_RTC_WDTWPROTECT 0x50D83AA1)
           (RegSet RTC_CNTL_RTC_WDTCONFIG0 0) (trace s')"
    unfolding 1 by (rule immediately_before_mid)
  have b: "immediately_before (RegSet RTC_CNTL_RTC_SWD_WPROTECT 0x8F1D312A)
           (RegSet RTC_CNTL_RTC_SWD_CONF (RTC_CNTL_RTC_SWD_CONF_SWD_DISABLE K)) (trace s')"
    unfolding 2 by (rule immediately_before_mid)
  show ?thesis using a b 3 by simp
qed

lemma handoff_garbage:
  "main_to_handoff esp32c3 0x3FC80000 0x3FC80008 garbage =
     Some (log CallRun (configure_timer esp32c3 (zeroed 0x3FC80000 2
       (set_cpu_frequency esp32c3 (disable_watchdogs esp32c3 garbage)))))"
  using main_to_handoff_region [of "0x3FC80000" "0x3FC80008" esp32c3 garbage] by simp

lemma trace_handoff_garbage:
  "trace (log CallRun (configure_timer esp32c3 (zeroed 0x3FC80000 2
       (set_cpu_frequency esp32c3 (disable_watchdogs esp32c3 garbage))))) =
     [RegSet TIMG0_WDTCONFIG0_REG 0,
      RegSet RTC_CNTL_RTC_WDTWPROTECT 0x50D83AA1,
      RegSet RTC_CNTL_RTC_WDTCONFIG0 0,
      RegSet RTC_CNTL_RTC_SWD_WPROTECT 0x8F1D312A,
      RegSet RTC_CNTL_RTC_SWD_CONF 0x40000000,
      RegSet SYSTEM_SYSCLK_CONF 0x400,
      RegSet SYSTEM_CPU_PER_CONF_REG 0xD,
      Store32 0x3FC80000 0, Store32 0x3FC80004 0,
      RegSet TIMG0_T0CONFIG_REG 0xC0004000,
      RegSet TIMG0_T0LOADLO_REG 0,
      RegSet TIMG0_T0LOADHI_REG 0,
      RegSet TIMG0_T0LOAD_REG 0,
      CallRun]"
  by (simp add: log_def trace_configure_timer zeroed_def trace_set_cpu_frequency
      trace_disable_watchdogs garbage_def esp32c3_def upt_rec)

lemma esp32c3_simps:
  "RTC_CNTL_RTC_SWD_CONF_SWD_DISABLE esp32c3 = 0x40000000"
  "SYSTEM_SYSCLK_CONF_SOC_CLK_SEL_Pos esp32c3 = 10"
  "SYSTEM_CPU_PER_CONF_REG_CPU_WAIT_MODE_FORCE_ON esp32c3 = 0x8"
  "SYSTEM_CPU_PER_CONF_REG_PLL_FREQ_SEL esp32c3 = 0x4"
  "SYSTEM_CPU_PER_CONF_REG_CPUPERIOD_SEL_Pos esp32c3 = 0"
  by (simp_all add: esp32c3_def)

lemma trace_garbage: "trace garbage = []"
  by (simp add: garbage_def)

text \<open>
  Claim C1 as stated asks, for each of the three watchdogs, for a write of the unlock
  constant to its write-protect register directly before the disable write. For the
  timer-group watchdog this fails: the write of 0 to \<open>TIMG0.WDTCONFIG0\<close> is the very
  first event of \<open>main\<close>, and no event at all stands directly before a write to that
  register.
\<close>

theorem timg0_watchdog_unlock_counterexample:
  "\<exists>s'. main_to_handoff esp32c3 0x3FC80000 0x3FC80008 garbage = Some s'
     \<and> hd (trace s') = RegSet TIMG0_WDTCONFIG0_REG 0
     \<and> \<not> (\<exists>e v. immediately_before e (RegSet TIMG0_WDTCONFIG0_REG v) (trace s'))"
  unfolding handoff_garbage by (simp add: trace_handoff_garbage immediately_before_def)

theorem rtc_and_super_watchdog_unlocked_before_disable_witness:
  "\<exists>s'. main_to_handoff esp32c3 0x3FC80000 0x3FC80008 garbage = Some s'
     \<and> immediately_before (RegSet RTC_CNTL_RTC_WDTWPROTECT 0x50D83AA1)
           (RegSet RTC_CNTL_RTC_WDTCONFIG0 0) (trace s')
     \<and> immediately_before (RegSet RTC_CNTL_RTC_SWD_WPROTECT 0x8F1D312A)
           (RegSet RTC_CNTL_RTC_SWD_CONF 0x40000000) (trace s')
     \<and> trace s' ! 0 = RegSet TIMG0_WDTCONFIG0_REG 0"
  using rtc_and_super_watchdog_unlocked_before_disable [OF handoff_garbage]
  by (simp add: handoff_garbage esp32c3_simps trace_garbage)

text \<open>
  Claim C7. For a valid \<open>.bss\<close> region \<open>main\<close> reaches the handoff, and the events it
  has added to the trace are, in this order: the five watchdog writes, the two clock
  writes, one store of zero for every word of the region, the four timer writes
  beginning with the enabling write to \<open>T0CONFIG\<close>, and last the call of \<open>run()\<close>. So
  every watchdog write precedes the timer-enable write, and every word of the region
  has been written (and reads as zero) when \<open>run()\<close> is called.
\<close>

theorem boot_order:
  assumes "sbss \<le> ebss" "4 dvd (unat ebss - unat sbss)"
  shows "\<exists>s'. main_to_handoff K sbss ebss s = Some s'
     \<and> trace s' = trace s @
       [RegSet TIMG0_WDTCONFIG0_REG 0,
        RegSet RTC_CNTL_RTC_WDTWPROTECT 0x50D83AA1,
        RegSet RTC_CNTL_RTC_WDTCONFIG0 0,
        RegSet RTC_CNTL_RTC_SWD_WPROTECT 0x8F1D312A,
        RegSet RTC_CNTL_RTC_SWD_CONF (RTC_CNTL_RTC_SWD_CONF_SWD_DISABLE K)] @
       [RegSet SYSTEM_SYSCLK_CONF (push_bit (SYSTEM_SYSCLK_CONF_SOC_CLK_SEL_Pos K) 1),
        RegSet SYSTEM_CPU_PER_CONF_REG
          (SYSTEM_CPU_PER_CONF_REG_CPU_WAIT_MODE_FORCE_ON K
           OR SYSTEM_CPU_PER_CONF_REG_PLL_FREQ_SEL K
           OR push_bit (SYSTEM_CPU_PER_CONF_REG_CPUPERIOD_SEL_Pos K) 1)] @
       map (\<lambda>k. Store32 (sbss + 4 * of_nat k) 0) [0..<(unat ebss - unat sbss) div 4] @
       [RegSet TIMG0_T0CONFIG_REG
          (TIMG_T0CONFIG_REG_T0_EN K OR TIMG_T0CONFIG_REG_T0_INCREASE K
           OR push_bit (TIMG_T0CONFIG_REG_T0_DIVIDER_Pos K) 2),
        RegSet TIMG0_T0LOADLO_REG 0,
        RegSet TIMG0_T0LOADHI_REG 0,
        RegSet TIMG0_T0LOAD_REG 0] @
       [CallRun]
     \<and> (\<forall>a. sbss \<le> a \<and> a < ebss \<longrightarrow> mem s' a = 0)"
proof -
  let ?s1 = "set_cpu_frequency K (disable_watchdogs K s)"
  let ?z = "zeroed sbss ((unat ebss - unat sbss) div 4) ?s1"
  have t: "trace (log CallRun (configure_timer K ?z)) = trace ?z @
       [RegSet TIMG0_T0CONFIG_REG
          (TIMG_T0CONFIG_REG_T0_EN K OR TIMG_T0CONFIG_REG_T0_INCREASE K
           OR push_bit (TIMG_T0CONFIG_REG_T0_DIVIDER_Pos K) 2),
        RegSet TIMG0_T0LOADLO_REG 0,
        RegSet TIMG0_T0LOADHI_REG 0,
        RegSet TIMG0_T0LOAD_REG 0] @ [CallRun]"
    by (simp add: log_def trace_configure_timer)
  have z: "trace ?z = trace ?s1 @
       map (\<lambda>k. Store32 (sbss + 4 * of_nat k) 0) [0..<(unat ebss - unat sbss) div 4]"
    by (simp add: zeroed_def)
  have m: "mem (log CallRun (configure_timer K ?z)) a = mem ?z a" for a
    by (simp add: log_def mem_stages)
  have m0: "sbss \<le> a \<and> a < ebss \<longrightarrow> mem ?z a = 0" for a
    by (simp add: mem_zeroed_region [OF assms])
  show ?thesis
    unfolding main_to_handoff_region [OF assms]
    by (simp add: t z m m0 trace_set_cpu_frequency trace_disable_watchdogs)
qed

theorem boot_order_witness:
  "(0x3FC80000 :: u32) \<le> 0x3FC80008
   \<and> 4 dvd (unat (0x3FC80008 :: u32) - unat (0x3FC80000 :: u32))
   \<and> (\<exists>s'. main_to_handoff esp32c3 0x3FC80000 0x3FC80008 garbage = Some s'
     \<and> trace s' =
       [RegSet TIMG0_WDTCONFIG0_REG 0,
        RegSet RTC_CNTL_RTC_WDTWPROTECT 0x50D83AA1,
        RegSet RTC_CNTL_RTC_WDTCONFIG0 0,
        RegSet RTC_CNTL_RTC_SWD_WPROTECT 0x8F1D312A,
        RegSet RTC_CNTL_RTC_SWD_CONF 0x40000000,
        RegSet SYSTEM_SYSCLK_CONF 0x400,
        RegSet SYSTEM_CPU_PER_CONF_REG 0xD,
        Store32 0x3FC80000 0, Store32 0x3FC80004 0,
        RegSet TIMG0_T0CONFIG_REG 0xC0004000,
        RegSet TIMG0_T0LOADLO_REG 0,
        RegSet TIMG0_T0LOADHI_REG 0,
        RegSet TIMG0_T0LOAD_REG 0,
        CallRun]
     \<and> mem s' 0x3FC80004 = 0)"
proof -
  have h: "(0x3FC80000 :: u32) \<le> 0x3FC80008"
    "4 dvd (unat (0x3FC80008 :: u32) - unat (0x3FC80000 :: u32))" by simp_all
  from boot_order [OF h, of esp32c3 garbage] obtain s' where
    r: "main_to_handoff esp32c3 0x3FC80000 0x3FC80008 garbage = Some s'"
    and z: "\<forall>a. 0x3FC80000 \<le> a \<and> a < 0x3FC80008 \<longrightarrow> mem s' a = 0" by blast
  have t: "trace s' = trace (log CallRun (configure_timer esp32c3 (zeroed 0x3FC80000 2
       (set_cpu_frequency esp32c3 (disable_watchdogs esp32c3 garbage)))))"
    using r unfolding handoff_garbage by simp
  note t' = t [unfolded trace_handoff_garbage]
  have "mem s' 0x3FC80004 = 0" using z [rule_format, of "0x3FC80004"] by simp
  then show ?thesis using h r t' by simp
qed

text \<open>
  Claim C8. If \<open>run()\<close> returns, in state \<open>s2\<close>, then after any number \<open>n\<close> of
  iterations \<open>main\<close> is still inside the loop of \<open>abort\<close> (the result is \<open>Inl\<close>, never
  \<open>Inr\<close>), and the machine is \<open>s2\<close> with \<open>n\<close> \<open>wfi\<close> events added to the trace: no
  register write, no store, nothing but \<open>wfi\<close>.
\<close>

theorem halted_is_terminal:
  assumes "main_to_handoff K sbss ebss s = Some s1" "run s1 = Some s2"
  shows "main K sbss ebss run n s = Some (Inl (s2\<lparr>trace := trace s2 @ replicate n Wfi\<rparr>))"
  using assms by (simp add: main_def abort_trace)

theorem halted_is_terminal_witness:
  "\<exists>s1. main_to_handoff esp32c3 0x3FC80000 0x3FC80008 garbage = Some s1
     \<and> returning_run s1 = Some (store32 0x3FC80000 7 s1)
     \<and> main esp32c3 0x3FC80000 0x3FC80008 returning_run 3 garbage
         = Some (Inl ((store32 0x3FC80000 7 s1)
              \<lparr>trace := trace (store32 0x3FC80000 7 s1) @ [Wfi, Wfi, Wfi]\<rparr>))"
proof -
  let ?s1 = "log CallRun (configure_timer esp32c3 (zeroed 0x3FC80000 2
       (set_cpu_frequency esp32c3 (disable_watchdogs esp32c3 garbage))))"
  have r: "returning_run ?s1 = Some (store32 0x3FC80000 7 ?s1)"
    by (simp add: returning_run_def)
  show ?thesis
    using halted_is_terminal [where run = returning_run and n = 3, OF handoff_garbage r] r
    by (simp add: handoff_garbage numeral_3_eq_3)
qed

text \<open>
  Claim C9. The clock configuration adds exactly two events to the trace: the write of
  \<open>1 << SOC_CLK_SEL_Pos\<close> to \<open>SYSCLK_CONF\<close>, then the write to \<open>CPU_PER_CONF_REG\<close> whose
  value has the bits of \<open>CPU_WAIT_MODE_FORCE_ON\<close> set; and among all events of \<open>main\<close>
  up to the handoff these two are the only writes to a clock register.
\<close>

theorem clock_config_two_writes:
  assumes "main_to_handoff K sbss ebss s = Some s'"
  shows "trace (set_cpu_frequency K t) = trace t @
       [RegSet SYSTEM_SYSCLK_CONF (push_bit (SYSTEM_SYSCLK_CONF_SOC_CLK_SEL_Pos K) 1),
        RegSet SYSTEM_CPU_PER_CONF_REG
          (SYSTEM_CPU_PER_CONF_REG_CPU_WAIT_MODE_FORCE_ON K
           OR SYSTEM_CPU_PER_CONF_REG_PLL_FREQ_SEL K
           OR push_bit (SYSTEM_CPU_PER_CONF_REG_CPUPERIOD_SEL_Pos K) 1)]
     \<and> filter clock_write (drop (length (trace s)) (trace s')) =
       [RegSet SYSTEM_SYSCLK_CONF (push_bit (SYSTEM_SYSCLK_CONF_SOC_CLK_SEL_Pos K) 1),
        RegSet SYSTEM_CPU_PER_CONF_REG
          (SYSTEM_CPU_PER_CONF_REG_CPU_WAIT_MODE_FORCE_ON K
           OR SYSTEM_CPU_PER_CONF_REG_PLL_FREQ_SEL K
           OR push_bit (SYSTEM_CPU_PER_CONF_REG_CPUPERIOD_SEL_Pos K) 1)]
     \<and> (SYSTEM_CPU_PER_CONF_REG_CPU_WAIT_MODE_FORCE_ON K
           OR SYSTEM_CPU_PER_CONF_REG_PLL_FREQ_SEL K
           OR push_bit (SYSTEM_CPU_PER_CONF_REG_CPUPERIOD_SEL_Pos K) 1)
         AND SYSTEM_CPU_PER_CONF_REG_CPU_WAIT_MODE_FORCE_ON K
         = SYSTEM_CPU_PER_CONF_REG_CPU_WAIT_MODE_FORCE_ON K"
proof -
  from main_to_handoff_trace [OF assms] obtain zs where
    a: "\<forall>z \<in> set zs. \<exists>a. z = Store32 a 0" and t: "trace s' = trace s @
     [RegSet TIMG0_WDTCONFIG0_REG 0,
      RegSet RTC_CNTL_RTC_WDTWPROTECT 0x50D83AA1,
      RegSet RTC_CNTL_RTC_WDTCONFIG0 0,
      RegSet RTC_CNTL_RTC_SWD_WPROTECT 0x8F1D312A,
      RegSet RTC_CNTL_RTC_SWD_CONF (RTC_CNTL_RTC_SWD_CONF_SWD_DISABLE K)] @
     [RegSet SYSTEM_SYSCLK_CONF (push_bit (SYSTEM_SYSCLK_CONF_SOC_CLK_SEL_Pos K) 1),
      RegSet SYSTEM_CPU_PER_CONF_REG
        (SYSTEM_CPU_PER_CONF_REG_CPU_WAIT_MODE_FORCE_ON K
         OR SYSTEM_CPU_PER_CONF_REG_PLL_FREQ_SEL K
         OR push_bit (SYSTEM_CPU_PER_CONF_REG_CPUPERIOD_SEL_Pos K) 1)] @
     zs @
     [RegSet TIMG0_T0CONFIG_REG
        (TIMG_T0CONFIG_REG_T0_EN K OR TIMG_T0CONFIG_REG_T0_INCREASE K
         OR push_bit (TIMG_T0CONFIG_REG_T0_DIVIDER_Pos K) 2),
      RegSet TIMG0_T0LOADLO_REG 0,
      RegSet TIMG0_T0LOADHI_REG 0,
      RegSet TIMG0_T0LOAD_REG 0] @
     [CallRun]" by blast
  have z: "filter clock_write zs = []" using a by (auto simp: filter_empty_conv clock_write_def)
  have f: "filter clock_write (drop (length (trace s)) (trace s')) =
       [RegSet SYSTEM_SYSCLK_CONF (push_bit (SYSTEM_SYSCLK_CONF_SOC_CLK_SEL_Pos K) 1),
        RegSet SYSTEM_CPU_PER_CONF_REG
          (SYSTEM_CPU_PER_CONF_REG_CPU_WAIT_MODE_FORCE_ON K
           OR SYSTEM_CPU_PER_CONF_REG_PLL_FREQ_SEL K
           OR push_bit (SYSTEM_CPU_PER_CONF_REG_CPUPERIOD_SEL_Pos K) 1)]"
    unfolding t by (simp add: z clock_write_def)
  have b: "(x OR y OR w) AND x = x" for x y w :: u32
    by (auto simp: bit_eq_iff bit_simps)
  show ?thesis using f b by (simp add: trace_set_cpu_frequency)
qed

theorem clock_config_two_writes_witness:
  "\<exists>s'. main_to_handoff esp32c3 0x3FC80000 0x3FC80008 garbage = Some s'
     \<and> trace (set_cpu_frequency esp32c3 garbage) =
        [RegSet SYSTEM_SYSCLK_CONF 0x400, RegSet SYSTEM_CPU_PER_CONF_REG 0xD]
     \<and> filter clock_write (trace s') =
        [RegSet SYSTEM_SYSCLK_CONF 0x400, RegSet SYSTEM_CPU_PER_CONF_REG 0xD]
     \<and> (0xD :: u32) AND 0x8 = 0x8"
  using clock_config_two_writes [OF handoff_garbage, of garbage]
  by (simp add: handoff_garbage esp32c3_simps trace_garbage)

end
